theory Spec2Isabelle
  imports Complex_Main "HOL-Library.Sublist" "HOL-Library.Word"
begin

section \<open>The asset generator of tool/generate\_sd\_assets.py\<close>

text \<open>
  The script drives a Stable Diffusion backend over HTTP, optionally strips the background
  of the returned image and writes one file per asset. Everything outside the script (the
  backend, the base64 decoder, rembg, the file system) is a parameter of the model, gathered
  in the record \<open>env\<close>; everything the script changes or emits (the HTTP calls it makes, the
  files it writes, the lines it prints) is a field of the record \<open>world\<close>, passed through
  every function.
\<close>

subsection \<open>Data\<close>

type_synonym bytes = "8 word list"

text \<open>
  Values of \<open>exn\<close> are instances of Python's class \<open>Exception\<close>, the class the handler of
  the asset loop catches.
\<close>

datatype exn =
    ConnectionError
  | HTTPError nat
  | JSONDecodeError
  | KeyError string
  | IndexError
  | Base64Error
  | ImageError
  | OSError
  | OtherException string

text \<open>The global settings \<open>SD_CONFIG\<close> (lines 34 to 42).\<close>

record sd_config =
  sd_steps :: int
  sd_cfg_scale :: real
  sd_width :: int
  sd_height :: int
  sd_sampler_name :: string
  sd_scheduler :: string
  sd_negative_prompt :: string

definition SD_CONFIG :: sd_config where
  "SD_CONFIG = \<lparr>
     sd_steps = 4,
     sd_cfg_scale = 2,
     sd_width = 512,
     sd_height = 512,
     sd_sampler_name = ''DPM++ SDE'',
     sd_scheduler = ''Karras'',
     sd_negative_prompt = ''blurry, low quality, distorted, ugly, bad anatomy, text, watermark, signature, jpeg artifacts, noise'' \<rparr>"

text \<open>
  One value of the dictionary \<open>ASSETS\<close>: a dictionary with the keys \<open>prompt\<close>,
  \<open>negative\<close>, \<open>width\<close>, \<open>height\<close> and \<open>remove_bg\<close>, each of which may be absent
  (\<open>None\<close>). The registry itself is a list of pairs of a file name and such a value, in
  the insertion order that \<open>ASSETS.items()\<close> iterates in.
\<close>

record config =
  prompt :: "string option"
  negative :: "string option"
  width :: "int option"
  height :: "int option"
  remove_bg :: "bool option"

text \<open>\<open>d.get(key, default)\<close> on an optional key.\<close>

definition dict_get :: "'a option \<Rightarrow> 'a \<Rightarrow> 'a" where
  "dict_get v d = (case v of None \<Rightarrow> d | Some x \<Rightarrow> x)"

text \<open>The JSON body of a txt2img request (lines 250 to 261).\<close>

record payload =
  pl_prompt :: string
  pl_negative_prompt :: string
  pl_steps :: int
  pl_cfg_scale :: real
  pl_width :: int
  pl_height :: int
  pl_sampler_name :: string
  pl_scheduler :: string
  pl_batch_size :: int
  pl_n_iter :: int

datatype http_call =
    GetOptions
  | PostOptions string
  | PostTxt2img payload

text \<open>
  A response of the options endpoint: its status code and what
  \<open>response.json().get("sd_model_checkpoint", "")\<close> finds in the body (\<open>Inl\<close> when the body
  cannot be decoded, \<open>Inr None\<close> when the key is absent).
\<close>

record options_response =
  o_status :: nat
  o_json :: "exn + string option"

text \<open>
  A response of the txt2img endpoint: its status code and the member \<open>images\<close> of its
  body, a list of base64 strings (\<open>Inr None\<close> when the key is absent).
\<close>

record txt2img_response =
  t_status :: nat
  t_json :: "exn + string list option"

text \<open>The lines the script prints.\<close>

datatype event =
    CheckingModel
  | Switching string
  | ModelSwitched
  | AlreadyUsing string
  | Generating nat nat string
  | RemovingBackground
  | RembgWarning
  | Saved string
  | ERROR exn
  | Complete string

record world =
  trace :: "http_call list"
  files :: "string \<rightharpoonup> bytes"
  stdout :: "event list"

text \<open>
  The collaborators. A request either raises (\<open>Inl\<close>, a transport error) or returns a
  response; the backend may answer by the calls it has seen so far. \<open>file_write\<close> returns
  \<open>Some (e, partial)\<close> when the write raises \<open>e\<close> and leaves \<open>partial\<close> in the file.
\<close>

record env =
  mkdir :: "exn option"
  get_options :: "http_call list \<Rightarrow> exn + options_response"
  post_options :: "http_call list \<Rightarrow> string \<Rightarrow> exn + options_response"
  post_txt2img :: "http_call list \<Rightarrow> payload \<Rightarrow> exn + txt2img_response"
  b64decode :: "string \<Rightarrow> exn + bytes"
  REMBG_AVAILABLE :: bool
  rembg :: "bytes \<Rightarrow> exn + bytes"
  file_open :: "string \<Rightarrow> exn option"
  file_write :: "string \<Rightarrow> bytes \<Rightarrow> (exn \<times> bytes) option"

definition print :: "event \<Rightarrow> world \<Rightarrow> world" where
  "print ev w = w\<lparr>stdout := stdout w @ [ev]\<rparr>"

definition call :: "http_call \<Rightarrow> world \<Rightarrow> world" where
  "call c w = w\<lparr>trace := trace w @ [c]\<rparr>"

definition OUTPUT_DIR :: string where
  "OUTPUT_DIR = ''assets/images''"

text \<open>
  \<open>OUTPUT_DIR / filename\<close> (line 293) is a join of pathlib, here in its POSIX flavour, and
  \<open>output_path\<close> is the string that \<open>open\<close> receives and \<open>print\<close> shows. The segments are
  joined as \<open>posixpath.join\<close> does (a file name that begins with a slash replaces the
  directory), the root is split off (\<open>/\<close>, or \<open>//\<close> for exactly two leading slashes), the rest
  is split at the slashes, and empty components and \<open>.\<close> are dropped. So different file names
  may give the same path.
\<close>

fun split_sep :: "string \<Rightarrow> string list" where
  "split_sep [] = [[]]"
| "split_sep (c # cs) =
     (if c = CHR ''/'' then [] # split_sep cs
      else (case split_sep cs of [] \<Rightarrow> [[c]] | x # xs \<Rightarrow> (c # x) # xs))"

fun join_sep :: "string list \<Rightarrow> string" where
  "join_sep [] = []"
| "join_sep [x] = x"
| "join_sep (x # y # ys) = x @ ''/'' @ join_sep (y # ys)"

definition posixpath_join :: "string \<Rightarrow> string \<Rightarrow> string" where
  "posixpath_join a b =
     (if take 1 b = ''/'' then b
      else if a = [] \<or> last a = CHR ''/'' then a @ b
      else a @ ''/'' @ b)"

definition splitroot :: "string \<Rightarrow> string \<times> string" where
  "splitroot p =
     (if take 1 p \<noteq> ''/'' then ([], p)
      else if take 1 (drop 1 p) \<noteq> ''/'' \<or> take 1 (drop 2 p) = ''/'' then (''/'', drop 1 p)
      else (''//'', drop 2 p))"

definition path_str :: "string \<Rightarrow> string" where
  "path_str p =
     (case splitroot p of
        (rt, rel) \<Rightarrow>
          (let s = rt @ join_sep (filter (\<lambda>x. x \<noteq> [] \<and> x \<noteq> ''.'') (split_sep rel))
           in if s = [] then ''.'' else s))"

definition output_path :: "string \<Rightarrow> string" where
  "output_path filename = path_str (posixpath_join OUTPUT_DIR filename)"

subsection \<open>Backend state guard\<close>

text \<open>Python's \<open>needle in haystack\<close> on strings.\<close>

fun str_contains :: "string \<Rightarrow> string \<Rightarrow> bool" where
  "str_contains needle [] = (needle = [])"
| "str_contains needle (c # cs) = (prefix needle (c # cs) \<or> str_contains needle cs)"

definition target_model :: string where
  "target_model = ''dreamshaperXL_lightningDPMSDE.safetensors''"

text \<open>
  \<open>ensure_model\<close> (lines 230 to 245). The result is the exception that left the function,
  if any, and the world at that moment. Neither response is checked for its status.
\<close>

definition ensure_model :: "env \<Rightarrow> world \<Rightarrow> exn option \<times> world" where
  "ensure_model e w0 =
     (let w1 = print CheckingModel w0 in
      case get_options e (trace w1) of
        Inl x \<Rightarrow> (Some x, call GetOptions w1)
      | Inr response \<Rightarrow>
          (let w2 = call GetOptions w1 in
           case o_json response of
             Inl x \<Rightarrow> (Some x, w2)
           | Inr member \<Rightarrow>
               (let current = dict_get member [] in
                if \<not> str_contains target_model current then
                  (let w3 = print (Switching target_model) w2 in
                   case post_options e (trace w3) target_model of
                     Inl x \<Rightarrow> (Some x, call (PostOptions target_model) w3)
                   | Inr _ \<Rightarrow> (None, print ModelSwitched (call (PostOptions target_model) w3)))
                else (None, print (AlreadyUsing target_model) w2))))"

subsection \<open>Generation client\<close>

text \<open>
  \<open>generate_image\<close> (lines 248 to 268): \<open>raise_for_status\<close> raises on a status from 400
  to 599, \<open>result["images"]\<close> on a missing key, \<open>[0]\<close> on an empty list.
\<close>

definition make_payload :: "string \<Rightarrow> string \<Rightarrow> int \<Rightarrow> int \<Rightarrow> payload" where
  "make_payload p n wd ht = \<lparr>
     pl_prompt = p,
     pl_negative_prompt = (if n \<noteq> [] then n else sd_negative_prompt SD_CONFIG),
     pl_steps = sd_steps SD_CONFIG,
     pl_cfg_scale = sd_cfg_scale SD_CONFIG,
     pl_width = wd,
     pl_height = ht,
     pl_sampler_name = sd_sampler_name SD_CONFIG,
     pl_scheduler = sd_scheduler SD_CONFIG,
     pl_batch_size = 1,
     pl_n_iter = 1 \<rparr>"

definition raise_for_status :: "nat \<Rightarrow> exn option" where
  "raise_for_status s = (if 400 \<le> s \<and> s < 600 then Some (HTTPError s) else None)"

definition generate_image ::
  "env \<Rightarrow> string \<Rightarrow> string \<Rightarrow> int \<Rightarrow> int \<Rightarrow> world \<Rightarrow> (exn + bytes) \<times> world" where
  "generate_image e p n wd ht w =
     (let pl = make_payload p n wd ht; w1 = call (PostTxt2img pl) w in
      case post_txt2img e (trace w) pl of
        Inl x \<Rightarrow> (Inl x, w1)
      | Inr response \<Rightarrow>
          (case raise_for_status (t_status response) of
             Some x \<Rightarrow> (Inl x, w1)
           | None \<Rightarrow>
               (case t_json response of
                  Inl x \<Rightarrow> (Inl x, w1)
                | Inr None \<Rightarrow> (Inl (KeyError ''images''), w1)
                | Inr (Some []) \<Rightarrow> (Inl IndexError, w1)
                | Inr (Some (image_data # _)) \<Rightarrow> (b64decode e image_data, w1))))"

subsection \<open>Post-processing\<close>

text \<open>\<open>apply_background_removal\<close> (lines 271 to 282).\<close>

definition apply_background_removal :: "env \<Rightarrow> bytes \<Rightarrow> world \<Rightarrow> (exn + bytes) \<times> world" where
  "apply_background_removal e image_data w =
     (if \<not> REMBG_AVAILABLE e then (Inr image_data, print RembgWarning w)
      else (rembg e image_data, w))"

subsection \<open>Batch orchestrator\<close>

text \<open>
  The body of the \<open>try\<close> statement (lines 303 to 317). \<open>open(path, "wb")\<close> truncates the
  file before anything is written.
\<close>

definition try_body ::
  "env \<Rightarrow> string \<Rightarrow> config \<Rightarrow> string \<Rightarrow> int \<Rightarrow> int \<Rightarrow> bool \<Rightarrow> world \<Rightarrow> (exn + unit) \<times> world" where
  "try_body e filename cfg n wd ht rm w =
     (case prompt cfg of
        None \<Rightarrow> (Inl (KeyError ''prompt''), w)
      | Some p \<Rightarrow>
          (case generate_image e p n wd ht w of
             (Inl x, w1) \<Rightarrow> (Inl x, w1)
           | (Inr image_data, w1) \<Rightarrow>
               (case (if rm then apply_background_removal e image_data (print RemovingBackground w1)
                      else (Inr image_data, w1)) of
                  (Inl x, w2) \<Rightarrow> (Inl x, w2)
                | (Inr image_data', w2) \<Rightarrow>
                    (case file_open e (output_path filename) of
                       Some x \<Rightarrow> (Inl x, w2)
                     | None \<Rightarrow>
                         (let w3 = w2\<lparr>files := (files w2)(output_path filename \<mapsto> [])\<rparr> in
                          case file_write e (output_path filename) image_data' of
                            Some (x, partial) \<Rightarrow>
                              (Inl x, w3\<lparr>files := (files w3)(output_path filename \<mapsto> partial)\<rparr>)
                          | None \<Rightarrow>
                              (Inr (),
                               print (Saved (output_path filename))
                                 (w3\<lparr>files := (files w3)(output_path filename \<mapsto> image_data')\<rparr>)))))))"

text \<open>The local variables of one iteration (lines 297 to 300), then its \<open>try\<close> statement.\<close>

definition attempt :: "env \<Rightarrow> string \<Rightarrow> config \<Rightarrow> world \<Rightarrow> (exn + unit) \<times> world" where
  "attempt e filename cfg w =
     (let wd = dict_get (width cfg) (sd_width SD_CONFIG);
          ht = dict_get (height cfg) (sd_height SD_CONFIG);
          n = dict_get (negative cfg) (sd_negative_prompt SD_CONFIG);
          rm = dict_get (remove_bg cfg) False
      in try_body e filename cfg n wd ht rm w)"

text \<open>One iteration of the loop (lines 293 to 320), with its handler.\<close>

definition process_asset :: "env \<Rightarrow> nat \<Rightarrow> nat \<Rightarrow> string \<Rightarrow> config \<Rightarrow> world \<Rightarrow> world" where
  "process_asset e tot i filename cfg w =
     (case attempt e filename cfg (print (Generating i tot filename) w) of
        (Inl x, w2) \<Rightarrow> print (ERROR x) w2
      | (Inr _, w2) \<Rightarrow> w2)"

fun asset_loop :: "env \<Rightarrow> nat \<Rightarrow> nat \<Rightarrow> (string \<times> config) list \<Rightarrow> world \<Rightarrow> world" where
  "asset_loop e tot i [] w = w"
| "asset_loop e tot i ((filename, cfg) # rest) w =
     asset_loop e tot (i + 1) rest (process_asset e tot i filename cfg w)"

text \<open>
  \<open>generate_all_assets\<close> (lines 285 to 322), over the registry \<open>assets\<close>. The result is
  the exception that left the function, if any, and the world at that moment.
\<close>

definition generate_all_assets ::
  "env \<Rightarrow> (string \<times> config) list \<Rightarrow> world \<Rightarrow> exn option \<times> world" where
  "generate_all_assets e assets w =
     (case mkdir e of
        Some x \<Rightarrow> (Some x, w)
      | None \<Rightarrow>
          (case ensure_model e w of
             (Some x, w1) \<Rightarrow> (Some x, w1)
           | (None, w1) \<Rightarrow>
               (None, print (Complete OUTPUT_DIR) (asset_loop e (length assets) 1 assets w1))))"

subsection \<open>What a run sends and prints\<close>

fun txt2img_of :: "http_call \<Rightarrow> payload option" where
  "txt2img_of (PostTxt2img pl) = Some pl"
| "txt2img_of _ = None"

fun generating_of :: "event \<Rightarrow> string option" where
  "generating_of (Generating i tot filename) = Some filename"
| "generating_of _ = None"

fun error_of :: "event \<Rightarrow> exn option" where
  "error_of (ERROR x) = Some x"
| "error_of _ = None"

text \<open>The generation requests made so far, the assets started so far, the errors printed so far.\<close>

definition requests_sent :: "world \<Rightarrow> payload list" where
  "requests_sent w = List.map_filter txt2img_of (trace w)"

definition attempted :: "world \<Rightarrow> string list" where
  "attempted w = List.map_filter generating_of (stdout w)"

definition failures :: "world \<Rightarrow> exn list" where
  "failures w = List.map_filter error_of (stdout w)"

text \<open>The generation requests a run makes, in order.\<close>

definition transmitted :: "env \<Rightarrow> (string \<times> config) list \<Rightarrow> world \<Rightarrow> payload list" where
  "transmitted e assets w =
     drop (length (requests_sent w)) (requests_sent (snd (generate_all_assets e assets w)))"

text \<open>The request that the iteration for \<open>cfg\<close> builds, if it gets as far as building one.\<close>

definition request_of :: "config \<Rightarrow> payload option" where
  "request_of cfg =
     (case prompt cfg of
        None \<Rightarrow> None
      | Some p \<Rightarrow>
          Some (make_payload p
                 (dict_get (negative cfg) (sd_negative_prompt SD_CONFIG))
                 (dict_get (width cfg) (sd_width SD_CONFIG))
                 (dict_get (height cfg) (sd_height SD_CONFIG))))"

text \<open>
  The world in which the iteration for the asset at position \<open>k\<close> begins, the world it
  hands to the \<open>try\<close> statement (after the progress line), and the world it leaves.
\<close>

definition before_asset :: "env \<Rightarrow> (string \<times> config) list \<Rightarrow> nat \<Rightarrow> world \<Rightarrow> world" where
  "before_asset e assets k w = asset_loop e (length assets) 1 (take k assets) w"

definition start_of :: "env \<Rightarrow> (string \<times> config) list \<Rightarrow> nat \<Rightarrow> world \<Rightarrow> world" where
  "start_of e assets k w =
     print (Generating (Suc k) (length assets) (fst (assets ! k))) (before_asset e assets k w)"

definition after_asset :: "env \<Rightarrow> (string \<times> config) list \<Rightarrow> nat \<Rightarrow> world \<Rightarrow> world" where
  "after_asset e assets k w = before_asset e assets (Suc k) w"

text \<open>The call of \<open>generate_image\<close> that the iteration for \<open>cfg\<close> makes (lines 303 to 308).\<close>

definition generation :: "env \<Rightarrow> config \<Rightarrow> string \<Rightarrow> world \<Rightarrow> (exn + bytes) \<times> world" where
  "generation e cfg p w =
     generate_image e p
       (dict_get (negative cfg) (sd_negative_prompt SD_CONFIG))
       (dict_get (width cfg) (sd_width SD_CONFIG))
       (dict_get (height cfg) (sd_height SD_CONFIG)) w"

subsection \<open>Sample environments\<close>

definition w_init :: world where
  "w_init = \<lparr> trace = [], files = Map.empty, stdout = [] \<rparr>"

text \<open>
  A backend that has the target model loaded and answers every generation request with one
  image, except those whose prompt is \<open>down\<close>, where the connection fails; no rembg.
\<close>

definition sample_env :: env where
  "sample_env = \<lparr>
     mkdir = None,
     get_options = (\<lambda>_. Inr \<lparr> o_status = 200, o_json = Inr (Some (''models/'' @ target_model @ '' [abc]'')) \<rparr>),
     post_options = (\<lambda>_ _. Inr \<lparr> o_status = 200, o_json = Inr None \<rparr>),
     post_txt2img = (\<lambda>_ pl. if pl_prompt pl = ''down'' then Inl ConnectionError
                            else Inr \<lparr> t_status = 200, t_json = Inr (Some [''AQI='']) \<rparr>),
     b64decode = (\<lambda>s. if s = ''AQI='' then Inr [1, 2] else Inl Base64Error),
     REMBG_AVAILABLE = False,
     rembg = (\<lambda>b. Inl ImageError),
     file_open = (\<lambda>_. None),
     file_write = (\<lambda>_ _. None) \<rparr>"

text \<open>A backend with another model loaded that answers the switch request with status 500.\<close>

definition refusing_env :: env where
  "refusing_env = sample_env \<lparr>
     get_options := (\<lambda>_. Inr \<lparr> o_status = 200, o_json = Inr (Some ''v1-5-pruned.ckpt'') \<rparr>),
     post_options := (\<lambda>_ _. Inr \<lparr> o_status = 500, o_json = Inl JSONDecodeError \<rparr>) \<rparr>"

text \<open>A backend that cannot be reached at all.\<close>

definition unreachable_env :: env where
  "unreachable_env = sample_env \<lparr>
     get_options := (\<lambda>_. Inl ConnectionError),
     post_options := (\<lambda>_ _. Inl ConnectionError),
     post_txt2img := (\<lambda>_ _. Inl ConnectionError) \<rparr>"

definition asset :: "string \<Rightarrow> config" where
  "asset p = \<lparr> prompt = Some p, negative = None, width = None, height = None, remove_bg = None \<rparr>"

text \<open>Registries for the sample runs.\<close>

definition negative_assets :: "(string \<times> config) list" where
  "negative_assets =
     [(''a.png'', asset ''x''),
      (''b.png'', (asset ''y'')\<lparr>negative := Some []\<rparr>),
      (''c.png'', (asset ''z'')\<lparr>negative := Some ''text, watermark''\<rparr>)]"

definition dimension_assets :: "(string \<times> config) list" where
  "dimension_assets =
     [(''a.png'', asset ''x''),
      (''header_banner.png'', (asset ''y'')\<lparr>width := Some 1024, height := Some 256\<rparr>),
      (''c.png'', (asset ''z'')\<lparr>width := Some 1024\<rparr>),
      (''d.png'', (asset ''u'')\<lparr>height := Some 64\<rparr>)]"

definition banner_asset :: "string \<times> config" where
  "banner_asset = (''banner.png'', (asset ''x'')\<lparr>width := Some 1024\<rparr>)"

definition prompt_assets :: "(string \<times> config) list" where
  "prompt_assets =
     [(''a.png'', asset ''x''),
      (''b.png'', (asset ''y'')\<lparr>prompt := None\<rparr>),
      (''c.png'', asset []),
      (''d.png'', asset ''z'')]"

text \<open>The sample backend on a machine where rembg is installed and rejects every image.\<close>

definition rembg_env :: env where
  "rembg_env = sample_env \<lparr> REMBG_AVAILABLE := True \<rparr>"

definition failing_assets :: "(string \<times> config) list" where
  "failing_assets =
     [(''a.png'', asset ''x''),
      (''b.png'', (asset ''down'')\<lparr>remove_bg := Some True\<rparr>),
      (''c.png'', (asset ''z'')\<lparr>remove_bg := Some True\<rparr>)]"

section \<open>Properties\<close>

subsection \<open>Auxiliary facts\<close>

lemma str_contains_sublist: "str_contains needle hay = sublist needle hay"
  by (induction hay) (simp_all add: sublist_Cons_right)

lemma trace_print [simp]: "trace (print ev w) = trace w"
  and files_print [simp]: "files (print ev w) = files w"
  and stdout_print [simp]: "stdout (print ev w) = stdout w @ [ev]"
  by (simp_all add: print_def)

lemma trace_call [simp]: "trace (call c w) = trace w @ [c]"
  and files_call [simp]: "files (call c w) = files w"
  and stdout_call [simp]: "stdout (call c w) = stdout w"
  by (simp_all add: call_def)

lemma generate_image_world:
  "snd (generate_image e p n wd ht w) = call (PostTxt2img (make_payload p n wd ht)) w"
  by (simp add: generate_image_def Let_def split: sum.splits option.splits list.splits)

lemma apply_background_removal_trace [simp]:
  "trace (snd (apply_background_removal e d w)) = trace w"
  by (simp add: apply_background_removal_def)

lemma apply_background_removal_files [simp]:
  "files (snd (apply_background_removal e d w)) = files w"
  by (simp add: apply_background_removal_def)

lemma map_filter_append: "List.map_filter f (xs @ ys) = List.map_filter f xs @ List.map_filter f ys"
  by (simp add: List.map_filter_def)

lemma try_body_trace:
  "trace (snd (try_body e filename cfg n wd ht rm w)) =
     trace w @ (case prompt cfg of None \<Rightarrow> [] | Some p \<Rightarrow> [PostTxt2img (make_payload p n wd ht)])"
proof (cases "prompt cfg")
  case None
  then show ?thesis by (simp add: try_body_def)
next
  case (Some p)
  obtain r w1 where g: "generate_image e p n wd ht w = (r, w1)"
    by (cases "generate_image e p n wd ht w")
  then have w1: "trace w1 = trace w @ [PostTxt2img (make_payload p n wd ht)]"
    using generate_image_world [of e p n wd ht w] by simp
  show ?thesis
  proof (cases r)
    case (Inl x)
    with Some g w1 show ?thesis by (simp add: try_body_def)
  next
    case (Inr d)
    obtain r2 w2 where a: "apply_background_removal e d (print RemovingBackground w1) = (r2, w2)"
      by (cases "apply_background_removal e d (print RemovingBackground w1)")
    then have w2: "trace w2 = trace w1"
      using apply_background_removal_trace [of e d "print RemovingBackground w1"] by simp
    from Some g Inr a w1 w2 show ?thesis
      by (simp add: try_body_def Let_def split: sum.splits option.splits prod.splits)
  qed
qed

lemma attempt_trace:
  "trace (snd (attempt e filename cfg w)) =
     trace w @ (case request_of cfg of None \<Rightarrow> [] | Some pl \<Rightarrow> [PostTxt2img pl])"
  by (simp add: attempt_def Let_def try_body_trace request_of_def split: option.splits)

lemma process_asset_trace:
  "trace (process_asset e tot i filename cfg w) =
     trace w @ (case request_of cfg of None \<Rightarrow> [] | Some pl \<Rightarrow> [PostTxt2img pl])"
proof -
  obtain r w2 where a: "attempt e filename cfg (print (Generating i tot filename) w) = (r, w2)"
    by (cases "attempt e filename cfg (print (Generating i tot filename) w)")
  then have "trace w2 = trace w @ (case request_of cfg of None \<Rightarrow> [] | Some pl \<Rightarrow> [PostTxt2img pl])"
    using attempt_trace [of e filename cfg "print (Generating i tot filename) w"] by simp
  with a show ?thesis
    by (cases r) (simp_all add: process_asset_def)
qed

lemma process_asset_requests:
  "requests_sent (process_asset e tot i filename cfg w) =
     requests_sent w @ (case request_of cfg of None \<Rightarrow> [] | Some pl \<Rightarrow> [pl])"
  by (simp add: requests_sent_def process_asset_trace map_filter_append List.map_filter_def
      split: option.splits)

lemma asset_loop_requests:
  "requests_sent (asset_loop e tot i assets w) =
     requests_sent w @ List.map_filter request_of (map snd assets)"
proof (induction assets arbitrary: i w)
  case Nil
  then show ?case by (simp add: List.map_filter_def)
next
  case (Cons a assets)
  obtain filename cfg where a: "a = (filename, cfg)" by (cases a)
  show ?case
    by (simp add: a Cons.IH process_asset_requests List.map_filter_def split: option.splits)
qed

lemma ensure_model_requests: "requests_sent (snd (ensure_model e w)) = requests_sent w"
  by (simp add: ensure_model_def Let_def requests_sent_def List.map_filter_def
      split: sum.splits option.splits)

lemma ensure_model_files: "files (snd (ensure_model e w)) = files w"
  by (simp add: ensure_model_def Let_def split: sum.splits option.splits)

lemma ensure_model_attempted: "attempted (snd (ensure_model e w)) = attempted w"
  by (simp add: ensure_model_def Let_def attempted_def List.map_filter_def
      split: sum.splits option.splits)

lemma requests_sent_print [simp]: "requests_sent (print ev w) = requests_sent w"
  by (simp add: requests_sent_def)

lemma transmitted_eq:
  "transmitted e assets w =
     (if mkdir e = None \<and> fst (ensure_model e w) = None
      then List.map_filter request_of (map snd assets) else [])"
proof -
  obtain r w1 where g: "ensure_model e w = (r, w1)" by (cases "ensure_model e w")
  then have "requests_sent w1 = requests_sent w"
    using ensure_model_requests [of e w] by simp
  with g show ?thesis
    by (simp add: transmitted_def generate_all_assets_def asset_loop_requests
        split: option.splits)
qed

lemma sample_guard:
  "ensure_model sample_env w =
     (None, print (AlreadyUsing target_model) (call GetOptions (print CheckingModel w)))"
proof -
  have "sublist target_model (''models/'' @ target_model @ '' [abc]'')"
    by (rule sublist_appendI)
  then show ?thesis
    by (simp add: ensure_model_def sample_env_def Let_def dict_get_def str_contains_sublist)
qed

lemma sample_fields:
  "mkdir sample_env = None"
  "post_txt2img sample_env t pl =
     (if pl_prompt pl = ''down'' then Inl ConnectionError
      else Inr \<lparr> t_status = 200, t_json = Inr (Some [''AQI='']) \<rparr>)"
  "b64decode sample_env s = (if s = ''AQI='' then Inr [1, 2] else Inl Base64Error)"
  "REMBG_AVAILABLE sample_env = False"
  "file_open sample_env path = None"
  "file_write sample_env path d = None"
  by (simp_all add: sample_env_def)

lemma sample_started: "mkdir sample_env = None" "fst (ensure_model sample_env w) = None"
  by (simp_all add: sample_guard sample_fields)

lemma make_payload_negative: "pl_negative_prompt (make_payload p n wd ht) \<noteq> []"
  by (simp add: make_payload_def SD_CONFIG_def)

lemma request_of_negative:
  "request_of cfg = Some pl \<Longrightarrow> pl_negative_prompt pl \<noteq> []"
  using make_payload_negative by (auto simp: request_of_def split: option.splits)

lemma map_filter_as_map:
  "List.map_filter request_of cfgs =
     map (\<lambda>cfg. the (request_of cfg)) (filter (\<lambda>cfg. prompt cfg \<noteq> None) cfgs)"
  by (induction cfgs) (auto simp: List.map_filter_def request_of_def split: option.splits)

lemma map_prompt_requests:
  "map pl_prompt (List.map_filter request_of cfgs) = List.map_filter prompt cfgs"
  by (induction cfgs)
     (auto simp: List.map_filter_def request_of_def make_payload_def split: option.splits)

lemma attempt_without_prompt:
  "prompt cfg = None \<Longrightarrow> attempt e filename cfg w = (Inl (KeyError ''prompt''), w)"
  by (simp add: attempt_def try_body_def Let_def)

lemma asset_loop_append:
  "asset_loop e tot i (xs @ ys) w = asset_loop e tot (i + length xs) ys (asset_loop e tot i xs w)"
  by (induction xs arbitrary: i w) auto

lemma generate_image_cases:
  obtains r where "generate_image e p n wd ht w = (r, call (PostTxt2img (make_payload p n wd ht)) w)"
  using generate_image_world [of e p n wd ht w]
  by (cases "generate_image e p n wd ht w") auto

lemma try_body_stdout:
  "\<exists>evs. stdout (snd (try_body e filename cfg n wd ht rm w)) = stdout w @ evs
     \<and> set evs \<subseteq> {RemovingBackground, RembgWarning, Saved (output_path filename)}"
proof (cases "prompt cfg")
  case None
  then show ?thesis by (simp add: try_body_def)
next
  case (Some p)
  obtain r where g: "generate_image e p n wd ht w = (r, call (PostTxt2img (make_payload p n wd ht)) w)"
    by (rule generate_image_cases)
  show ?thesis
    using Some g
    by (cases r)
       (auto simp: try_body_def apply_background_removal_def Let_def
             split: sum.splits option.splits prod.splits if_splits)
qed

lemma attempted_append:
  "stdout w' = stdout w @ evs \<Longrightarrow> attempted w' = attempted w @ List.map_filter generating_of evs"
  by (simp add: attempted_def map_filter_append)

lemma failures_append:
  "stdout w' = stdout w @ evs \<Longrightarrow> failures w' = failures w @ List.map_filter error_of evs"
  by (simp add: failures_def map_filter_append)

lemma map_filter_empty:
  "(\<And>x. x \<in> set xs \<Longrightarrow> f x = None) \<Longrightarrow> List.map_filter f xs = []"
  by (induction xs) (simp_all add: List.map_filter_def)

lemma attempt_stdout:
  "\<exists>evs. stdout (snd (attempt e filename cfg w)) = stdout w @ evs
     \<and> set evs \<subseteq> {RemovingBackground, RembgWarning, Saved (output_path filename)}"
  by (simp add: attempt_def Let_def try_body_stdout)

lemma attempt_attempted: "attempted (snd (attempt e filename cfg w)) = attempted w"
proof -
  obtain evs where evs: "stdout (snd (attempt e filename cfg w)) = stdout w @ evs"
    "set evs \<subseteq> {RemovingBackground, RembgWarning, Saved (output_path filename)}"
    using attempt_stdout by blast
  have "List.map_filter generating_of evs = []"
    using evs(2) by (intro map_filter_empty) auto
  with attempted_append [OF evs(1)] show ?thesis by simp
qed

lemma process_asset_cases:
  obtains (raised) x w2 where "attempt e filename cfg (print (Generating i tot filename) w) = (Inl x, w2)"
      and "process_asset e tot i filename cfg w = print (ERROR x) w2"
  | (saved) w2 where "attempt e filename cfg (print (Generating i tot filename) w) = (Inr (), w2)"
      and "process_asset e tot i filename cfg w = w2"
proof (cases "attempt e filename cfg (print (Generating i tot filename) w)")
  case (Pair r w2)
  show ?thesis
  proof (cases r)
    case (Inl x)
    with Pair show ?thesis by (intro raised [of x w2]) (simp_all add: process_asset_def)
  next
    case (Inr u)
    with Pair show ?thesis by (intro saved [of w2]) (simp_all add: process_asset_def)
  qed
qed

lemma process_asset_attempted:
  "attempted (process_asset e tot i filename cfg w) = attempted w @ [filename]"
proof -
  have a: "attempted (snd (attempt e filename cfg (print (Generating i tot filename) w))) =
        attempted w @ [filename]"
    by (simp add: attempt_attempted) (simp add: attempted_def map_filter_append List.map_filter_def)
  show ?thesis
  proof (cases rule: process_asset_cases [of e filename cfg i tot w])
    case (raised x w2)
    with a show ?thesis by (simp add: attempted_def map_filter_append List.map_filter_def)
  next
    case (saved w2)
    with a show ?thesis by simp
  qed
qed

lemma process_asset_stdout: "prefix (stdout w) (stdout (process_asset e tot i filename cfg w))"
proof -
  obtain evs where evs:
    "stdout (snd (attempt e filename cfg (print (Generating i tot filename) w))) =
       stdout (print (Generating i tot filename) w) @ evs"
    using attempt_stdout by blast
  show ?thesis
  proof (cases rule: process_asset_cases [of e filename cfg i tot w])
    case (raised x w2)
    with evs show ?thesis by (simp add: prefix_def)
  next
    case (saved w2)
    with evs show ?thesis by (simp add: prefix_def)
  qed
qed

lemma asset_loop_attempted:
  "attempted (asset_loop e tot i assets w) = attempted w @ map fst assets"
  by (induction assets arbitrary: i w) (auto simp: process_asset_attempted)

lemma asset_loop_stdout: "prefix (stdout w) (stdout (asset_loop e tot i assets w))"
proof (induction assets arbitrary: i w)
  case Nil
  then show ?case by simp
next
  case (Cons a assets)
  obtain filename cfg where a: "a = (filename, cfg)" by (cases a)
  have "prefix (stdout w) (stdout (process_asset e tot i filename cfg w))"
    by (rule process_asset_stdout)
  also have "prefix \<dots> (stdout (asset_loop e tot (i + 1) assets (process_asset e tot i filename cfg w)))"
    by (rule Cons.IH)
  finally show ?case by (simp add: a)
qed

lemma after_asset_step:
  assumes "k < length assets"
  shows "after_asset e assets k w =
           process_asset e (length assets) (Suc k) (fst (assets ! k)) (snd (assets ! k))
             (before_asset e assets k w)"
proof -
  obtain filename cfg where a: "assets ! k = (filename, cfg)" by (cases "assets ! k")
  have "take (Suc k) assets = take k assets @ [(filename, cfg)]"
    using assms a by (simp add: take_Suc_conv_app_nth)
  then show ?thesis
    using assms a by (simp add: after_asset_def before_asset_def asset_loop_append)
qed

lemma loop_from_after_asset:
  assumes "k < length assets"
  shows "asset_loop e (length assets) 1 assets w =
           asset_loop e (length assets) (k + 2) (drop (Suc k) assets) (after_asset e assets k w)"
proof -
  have len: "1 + length (take (Suc k) assets) = k + 2"
    using assms by simp
  have "asset_loop e (length assets) 1 (take (Suc k) assets @ drop (Suc k) assets) w =
      asset_loop e (length assets) (1 + length (take (Suc k) assets))
        (drop (Suc k) assets) (asset_loop e (length assets) 1 (take (Suc k) assets) w)"
    by (rule asset_loop_append)
  then show ?thesis
    by (simp only: append_take_drop_id len after_asset_def before_asset_def)
qed

lemma run_past_guard:
  assumes "mkdir e = None" and "ensure_model e w0 = (None, w)"
  shows "generate_all_assets e assets w0 =
           (None, print (Complete OUTPUT_DIR) (asset_loop e (length assets) 1 assets w))"
  using assms by (simp add: generate_all_assets_def)

lemma generation_world:
  assumes "generation e cfg p w = (r, w1)"
  shows "files w1 = files w" and "stdout w1 = stdout w"
proof -
  have "w1 = snd (generation e cfg p w)" using assms by simp
  then show "files w1 = files w" and "stdout w1 = stdout w"
    by (simp_all add: generation_def generate_image_world)
qed

lemma attempt_generation:
  assumes "prompt cfg = Some p"
  shows "attempt e filename cfg w =
     (case generation e cfg p w of
        (Inl x, w1) \<Rightarrow> (Inl x, w1)
      | (Inr image_data, w1) \<Rightarrow>
          (case (if dict_get (remove_bg cfg) False
                 then apply_background_removal e image_data (print RemovingBackground w1)
                 else (Inr image_data, w1)) of
             (Inl x, w2) \<Rightarrow> (Inl x, w2)
           | (Inr image_data', w2) \<Rightarrow>
               (case file_open e (output_path filename) of
                  Some x \<Rightarrow> (Inl x, w2)
                | None \<Rightarrow>
                    (let w3 = w2\<lparr>files := (files w2)(output_path filename \<mapsto> [])\<rparr> in
                     case file_write e (output_path filename) image_data' of
                       Some (x, partial) \<Rightarrow>
                         (Inl x, w3\<lparr>files := (files w3)(output_path filename \<mapsto> partial)\<rparr>)
                     | None \<Rightarrow>
                         (Inr (),
                          print (Saved (output_path filename))
                            (w3\<lparr>files := (files w3)(output_path filename \<mapsto> image_data')\<rparr>))))))"
  unfolding attempt_def try_body_def generation_def Let_def
  by (simp only: assms option.case)

lemma attempt_generation_failed:
  assumes "prompt cfg = Some p" and "generation e cfg p w = (Inl x, w1)"
  shows "attempt e filename cfg w = (Inl x, w1)"
  by (simp add: attempt_generation [OF assms(1)] assms(2))

lemma attempt_degraded:
  assumes "prompt cfg = Some p" and "generation e cfg p w = (Inr d, w1)"
    and "remove_bg cfg = Some True" and "\<not> REMBG_AVAILABLE e"
    and "file_open e (output_path filename) = None"
    and "file_write e (output_path filename) d = None"
  shows "\<exists>w2. attempt e filename cfg w = (Inr (), w2)
           \<and> files w2 (output_path filename) = Some d
           \<and> stdout w2 = stdout w @ [RemovingBackground, RembgWarning, Saved (output_path filename)]"
  using generation_world [OF assms(2)] assms(3-6)
  by (simp add: attempt_generation [OF assms(1)] assms(2) dict_get_def
      apply_background_removal_def)

lemma attempt_rembg_failed:
  assumes "prompt cfg = Some p" and "generation e cfg p w = (Inr d, w1)"
    and "remove_bg cfg = Some True" and "REMBG_AVAILABLE e" and "rembg e d = Inl x"
  shows "\<exists>w2. attempt e filename cfg w = (Inl x, w2) \<and> files w2 = files w"
  using generation_world [OF assms(2)] assms(3-5)
  by (simp add: attempt_generation [OF assms(1)] assms(2) dict_get_def
      apply_background_removal_def)

lemma attempted_print_other [simp]:
  "generating_of ev = None \<Longrightarrow> attempted (print ev w) = attempted w"
  by (simp add: attempted_def map_filter_append List.map_filter_def)

lemma after_asset_raised:
  assumes "k < length assets" and "assets ! k = (filename, cfg)"
    and "attempt e filename cfg (start_of e assets k w) = (Inl x, w')"
  shows "after_asset e assets k w = print (ERROR x) w'"
  using assms(2,3)
  by (simp add: after_asset_step [OF assms(1)] process_asset_def start_of_def)

lemma after_asset_saved:
  assumes "k < length assets" and "assets ! k = (filename, cfg)"
    and "attempt e filename cfg (start_of e assets k w) = (Inr u, w')"
  shows "after_asset e assets k w = w'"
  using assms(2,3)
  by (simp add: after_asset_step [OF assms(1)] process_asset_def start_of_def)

lemma stdout_at_end:
  assumes "mkdir e = None" and "ensure_model e w0 = (None, w)" and "k < length assets"
  shows "prefix (stdout (after_asset e assets k w)) (stdout (snd (generate_all_assets e assets w0)))"
proof -
  have "prefix (stdout (after_asset e assets k w))
      (stdout (asset_loop e (length assets) (k + 2) (drop (Suc k) assets) (after_asset e assets k w)))"
    by (rule asset_loop_stdout)
  then have "prefix (stdout (after_asset e assets k w)) (stdout (asset_loop e (length assets) 1 assets w))"
    by (simp only: loop_from_after_asset [OF assms(3)])
  then show ?thesis
    by (simp add: run_past_guard [OF assms(1,2)] prefix_prefix)
qed

lemma files_start_of [simp]: "files (start_of e assets k w) = files (before_asset e assets k w)"
  by (simp add: start_of_def)

lemma output_path_joins:
  "output_path ''a.png'' = ''assets/images/a.png''"
  "output_path ''./a.png'' = ''assets/images/a.png''"
  "output_path ''a.png/'' = ''assets/images/a.png''"
  "output_path ''/tmp/a.png'' = ''/tmp/a.png''"
  by (simp_all add: output_path_def path_str_def posixpath_join_def splitroot_def OUTPUT_DIR_def
      Let_def)

lemma attempt_output:
  "stdout (snd (attempt e filename cfg w)) =
     stdout w @
     (case prompt cfg of
        None \<Rightarrow> []
      | Some p \<Rightarrow>
          (case fst (generation e cfg p w) of
             Inl x \<Rightarrow> []
           | Inr d \<Rightarrow>
               if dict_get (remove_bg cfg) False
               then RemovingBackground # (if REMBG_AVAILABLE e then [] else [RembgWarning])
               else [])) @
     (case fst (attempt e filename cfg w) of
        Inl x \<Rightarrow> []
      | Inr u \<Rightarrow> [Saved (output_path filename)])"
proof (cases "prompt cfg")
  case None
  then show ?thesis by (simp add: attempt_without_prompt)
next
  case (Some p)
  obtain r w1 where g: "generation e cfg p w = (r, w1)"
    by (cases "generation e cfg p w")
  note s = generation_world(2) [OF g]
  show ?thesis
  proof (cases r)
    case (Inl x)
    with Some g s show ?thesis by (simp add: attempt_generation [OF Some])
  next
    case (Inr d)
    show ?thesis
    proof (cases "dict_get (remove_bg cfg) False")
      case False
      with Some g s Inr show ?thesis
        by (simp add: attempt_generation [OF Some] Let_def split: option.splits prod.splits)
    next
      case True
      show ?thesis
      proof (cases "REMBG_AVAILABLE e")
        case False
        with Some g s Inr True show ?thesis
          by (simp add: attempt_generation [OF Some] apply_background_removal_def Let_def
              split: option.splits prod.splits)
      next
        case avail: True
        show ?thesis
        proof (cases "rembg e d")
          case (Inl x)
          with Some g s Inr True avail show ?thesis
            by (simp add: attempt_generation [OF Some] apply_background_removal_def)
        next
          case (Inr d')
          with Some g s \<open>r = Inr d\<close> True avail show ?thesis
            by (simp add: attempt_generation [OF Some] apply_background_removal_def Let_def
                split: option.splits prod.splits)
        qed
      qed
    qed
  qed
qed

lemma process_asset_output:
  "stdout (process_asset e tot i filename cfg w) =
     stdout w @
     Generating i tot filename #
     (case prompt cfg of
        None \<Rightarrow> []
      | Some p \<Rightarrow>
          (case fst (generation e cfg p (print (Generating i tot filename) w)) of
             Inl x \<Rightarrow> []
           | Inr d \<Rightarrow>
               if dict_get (remove_bg cfg) False
               then RemovingBackground # (if REMBG_AVAILABLE e then [] else [RembgWarning])
               else [])) @
     [case fst (attempt e filename cfg (print (Generating i tot filename) w)) of
        Inl x \<Rightarrow> ERROR x
      | Inr u \<Rightarrow> Saved (output_path filename)]"
proof (cases rule: process_asset_cases [of e filename cfg i tot w])
  case (raised x w2)
  with attempt_output [of e filename cfg "print (Generating i tot filename) w"]
  show ?thesis by simp
next
  case (saved w2)
  with attempt_output [of e filename cfg "print (Generating i tot filename) w"]
  show ?thesis by simp
qed

lemma iteration_output:
  assumes "k < length assets"
  shows "stdout (before_asset e assets (Suc k) w) =
     stdout (before_asset e assets k w) @
     Generating (Suc k) (length assets) (fst (assets ! k)) #
     (case prompt (snd (assets ! k)) of
        None \<Rightarrow> []
      | Some p \<Rightarrow>
          (case fst (generation e (snd (assets ! k)) p (start_of e assets k w)) of
             Inl x \<Rightarrow> []
           | Inr d \<Rightarrow>
               if dict_get (remove_bg (snd (assets ! k))) False
               then RemovingBackground # (if REMBG_AVAILABLE e then [] else [RembgWarning])
               else [])) @
     [case fst (attempt e (fst (assets ! k)) (snd (assets ! k)) (start_of e assets k w)) of
        Inl x \<Rightarrow> ERROR x
      | Inr u \<Rightarrow> Saved (output_path (fst (assets ! k)))]"
  using after_asset_step [OF assms, of e w]
  by (simp only: after_asset_def start_of_def process_asset_output)

lemma guard_output:
  assumes "ensure_model e w0 = (None, w)"
  shows "stdout w = stdout w0 @ [CheckingModel, AlreadyUsing target_model] \<or>
         stdout w = stdout w0 @ [CheckingModel, Switching target_model, ModelSwitched]"
  using assms
  by (auto simp: ensure_model_def Let_def split: sum.splits option.splits if_splits)

lemma asset_degraded:
  assumes "k < length assets" and "assets ! k = (filename, cfg)"
    and "prompt cfg = Some p" and "generation e cfg p (start_of e assets k w) = (Inr d, w1)"
    and "remove_bg cfg = Some True" and "\<not> REMBG_AVAILABLE e"
    and "file_open e (output_path filename) = None"
    and "file_write e (output_path filename) d = None"
  shows "files (after_asset e assets k w) (output_path filename) = Some d"
    and "stdout (after_asset e assets k w) =
           stdout (start_of e assets k w) @
             [RemovingBackground, RembgWarning, Saved (output_path filename)]"
    and "failures (after_asset e assets k w) = failures (before_asset e assets k w)"
proof -
  obtain w2 where w2: "attempt e filename cfg (start_of e assets k w) = (Inr (), w2)"
      "files w2 (output_path filename) = Some d"
      "stdout w2 = stdout (start_of e assets k w) @
         [RemovingBackground, RembgWarning, Saved (output_path filename)]"
    using attempt_degraded [OF assms(3,4,5,6,7,8)] by blast
  have after: "after_asset e assets k w = w2"
    by (rule after_asset_saved [OF assms(1,2) w2(1)])
  have name: "fst (assets ! k) = filename" using assms(2) by simp
  show "files (after_asset e assets k w) (output_path filename) = Some d"
    using w2(2) by (simp add: after)
  show "stdout (after_asset e assets k w) =
           stdout (start_of e assets k w) @
             [RemovingBackground, RembgWarning, Saved (output_path filename)]"
    using w2(3) by (simp add: after)
  have "stdout w2 = stdout (before_asset e assets k w) @
      [Generating (Suc k) (length assets) filename, RemovingBackground, RembgWarning,
       Saved (output_path filename)]"
    using w2(3) by (simp add: start_of_def name)
  from failures_append [OF this]
  show "failures (after_asset e assets k w) = failures (before_asset e assets k w)"
    by (simp add: after List.map_filter_def)
qed

lemma asset_not_written:
  assumes "k < length assets" and "assets ! k = (filename, cfg)"
    and "attempt e filename cfg (start_of e assets k w) = (Inl x, w2)"
    and "files w2 = files (start_of e assets k w)"
  shows "files (after_asset e assets k w) = files (before_asset e assets k w)"
  using assms(4) by (simp add: after_asset_raised [OF assms(1,2,3)])


lemmas run_defs =
  generate_all_assets_def process_asset_def attempt_def try_body_def generate_image_def
  apply_background_removal_def raise_for_status_def make_payload_def dict_get_def Let_def

lemma refusing_fields:
  "mkdir refusing_env = None"
  "get_options refusing_env t = Inr \<lparr> o_status = 200, o_json = Inr (Some ''v1-5-pruned.ckpt'') \<rparr>"
  "post_options refusing_env t m = Inr \<lparr> o_status = 500, o_json = Inl JSONDecodeError \<rparr>"
  "post_txt2img refusing_env t pl = post_txt2img sample_env t pl"
  "b64decode refusing_env s = b64decode sample_env s"
  "REMBG_AVAILABLE refusing_env = False"
  "file_open refusing_env path = None"
  "file_write refusing_env path d = None"
  by (simp_all add: refusing_env_def sample_env_def)

lemma unreachable_fields:
  "mkdir unreachable_env = None"
  "get_options unreachable_env t = Inl ConnectionError"
  by (simp_all add: unreachable_env_def sample_env_def)

lemma other_model: "\<not> str_contains target_model ''v1-5-pruned.ckpt''"
  by (simp add: target_model_def)

lemma refusing_guard:
  "ensure_model refusing_env w =
     (None, print ModelSwitched (call (PostOptions target_model)
              (print (Switching target_model) (call GetOptions (print CheckingModel w)))))"
  using other_model
  by (simp add: ensure_model_def refusing_fields Let_def dict_get_def del: str_contains.simps)

lemma unreachable_guard:
  "ensure_model unreachable_env w = (Some ConnectionError, call GetOptions (print CheckingModel w))"
  by (simp add: ensure_model_def unreachable_fields Let_def)

lemma rembg_fields:
  "mkdir rembg_env = None"
  "post_txt2img rembg_env t pl = post_txt2img sample_env t pl"
  "b64decode rembg_env s = b64decode sample_env s"
  "REMBG_AVAILABLE rembg_env = True"
  "rembg rembg_env b = Inl ImageError"
  "file_open rembg_env path = None"
  "file_write rembg_env path d = None"
  by (simp_all add: rembg_env_def sample_env_def)

lemma rembg_guard:
  "ensure_model rembg_env w =
     (None, print (AlreadyUsing target_model) (call GetOptions (print CheckingModel w)))"
proof -
  have "sublist target_model (''models/'' @ target_model @ '' [abc]'')"
    by (rule sublist_appendI)
  then show ?thesis
    by (simp add: ensure_model_def rembg_env_def sample_env_def Let_def dict_get_def
        str_contains_sublist)
qed

lemma sample_generation:
  "generation sample_env cfg p w =
     (if p = ''down'' then Inl ConnectionError else Inr [1, 2],
      call (PostTxt2img (make_payload p
        (dict_get (negative cfg) (sd_negative_prompt SD_CONFIG))
        (dict_get (width cfg) (sd_width SD_CONFIG))
        (dict_get (height cfg) (sd_height SD_CONFIG)))) w)"
  by (simp add: generation_def generate_image_def sample_fields raise_for_status_def Let_def
      make_payload_def)

lemma rembg_generation:
  "generation rembg_env cfg p w =
     (if p = ''down'' then Inl ConnectionError else Inr [1, 2],
      call (PostTxt2img (make_payload p
        (dict_get (negative cfg) (sd_negative_prompt SD_CONFIG))
        (dict_get (width cfg) (sd_width SD_CONFIG))
        (dict_get (height cfg) (sd_height SD_CONFIG)))) w)"
  by (simp add: generation_def generate_image_def rembg_fields sample_fields
      raise_for_status_def Let_def make_payload_def)

lemma failing_assets_facts:
  "length failing_assets = 3"
  "failing_assets ! Suc 0 = (''b.png'', (asset ''down'')\<lparr>remove_bg := Some True\<rparr>)"
  "failing_assets ! 2 = (''c.png'', (asset ''z'')\<lparr>remove_bg := Some True\<rparr>)"
  by (simp_all add: failing_assets_def)

lemma sample_first_asset:
  "files (before_asset sample_env failing_assets (Suc 0) w) =
     (files w)(output_path ''a.png'' \<mapsto> [1, 2])"
  by (simp add: before_asset_def failing_assets_def process_asset_def attempt_def try_body_def
      generate_image_def raise_for_status_def make_payload_def dict_get_def Let_def
      sample_fields asset_def)

lemma rembg_two_assets:
  "files (before_asset rembg_env failing_assets 2 w) =
     (files w)(output_path ''a.png'' \<mapsto> [1, 2])"
  by (simp add: before_asset_def failing_assets_def process_asset_def attempt_def try_body_def
      generate_image_def raise_for_status_def make_payload_def dict_get_def Let_def
      rembg_fields sample_fields asset_def)

subsection \<open>Config resolution\<close>

text \<open>
  Claim C1, as the code has it: the width and the height of a request are resolved one by
  one. In a run that gets past the guard, the widths of the requests sent are, in order, the
  \<open>width\<close> of each asset that has a prompt where it is present and the global width
  otherwise, and the heights likewise from \<open>height\<close> and the global height, whatever the
  other dimension is.
\<close>

theorem dimensions_resolved_independently:
  assumes "mkdir e = None" and "fst (ensure_model e w) = None"
  shows "map pl_width (transmitted e assets w) =
           map (\<lambda>cfg. case width cfg of None \<Rightarrow> sd_width SD_CONFIG | Some x \<Rightarrow> x)
               (filter (\<lambda>cfg. prompt cfg \<noteq> None) (map snd assets))
       \<and> map pl_height (transmitted e assets w) =
           map (\<lambda>cfg. case height cfg of None \<Rightarrow> sd_height SD_CONFIG | Some y \<Rightarrow> y)
               (filter (\<lambda>cfg. prompt cfg \<noteq> None) (map snd assets))"
  using assms
  by (simp add: transmitted_eq map_filter_as_map request_of_def make_payload_def dict_get_def
      split: option.splits cong: map_cong)

theorem dimensions_resolved_independently_witness:
  "mkdir sample_env = None \<and> fst (ensure_model sample_env w_init) = None \<and>
   map pl_width (transmitted sample_env dimension_assets w_init) = [512, 1024, 1024, 512] \<and>
   map pl_height (transmitted sample_env dimension_assets w_init) = [512, 256, 512, 64]"
  using dimensions_resolved_independently [of sample_env w_init dimension_assets]
  by (simp add: sample_started dimension_assets_def asset_def SD_CONFIG_def)

text \<open>
  Claim C1 as stated fails: an asset that overrides its width only is requested with the
  overridden width and the global height, not with the global pair.
\<close>

theorem partial_override_counterexample:
  "width (snd banner_asset) = Some 1024 \<and> height (snd banner_asset) = None \<and>
   map pl_width (transmitted sample_env [banner_asset] w_init) = [1024] \<and>
   map pl_height (transmitted sample_env [banner_asset] w_init) = [sd_height SD_CONFIG] \<and>
   sd_width SD_CONFIG \<noteq> 1024"
  by (simp add: transmitted_eq sample_started List.map_filter_def request_of_def asset_def
      banner_asset_def make_payload_def dict_get_def SD_CONFIG_def)

text \<open>
  Claim C5, as the code has it: the prompt is sent as it is written. In a run that gets past
  the guard, the prompts of the requests sent are, in order, the prompts present in the
  registry, an empty one included; an asset without the key \<open>prompt\<close> raises
  \<open>KeyError\<close> inside the \<open>try\<close> statement before any request is made.
\<close>

theorem prompt_sent_verbatim:
  assumes "mkdir e = None" and "fst (ensure_model e w) = None"
  shows "map pl_prompt (transmitted e assets w) = List.map_filter prompt (map snd assets)
       \<and> (\<forall>filename cfg w'. prompt cfg = None \<longrightarrow>
             attempt e filename cfg w' = (Inl (KeyError ''prompt''), w'))"
  using assms by (simp add: transmitted_eq map_prompt_requests attempt_without_prompt)

theorem prompt_sent_verbatim_witness:
  "mkdir sample_env = None \<and> fst (ensure_model sample_env w_init) = None \<and>
   prompt (snd (prompt_assets ! 1)) = None \<and>
   map pl_prompt (transmitted sample_env prompt_assets w_init) = [''x'', [], ''z''] \<and>
   attempt sample_env (fst (prompt_assets ! 1)) (snd (prompt_assets ! 1)) w_init =
     (Inl (KeyError ''prompt''), w_init)"
  using prompt_sent_verbatim [of sample_env w_init prompt_assets]
  by (simp add: sample_started prompt_assets_def asset_def List.map_filter_def)

text \<open>
  Claim C5 as stated fails: an asset whose prompt is the empty string is requested with the
  empty prompt, and the run prints no error.
\<close>

theorem empty_prompt_counterexample:
  "prompt (asset []) = Some [] \<and>
   map pl_prompt (transmitted sample_env [(''a.png'', asset [])] w_init) = [[]] \<and>
   failures (snd (generate_all_assets sample_env [(''a.png'', asset [])] w_init)) = []"
  by (simp add: transmitted_eq sample_started List.map_filter_def request_of_def asset_def
      make_payload_def dict_get_def generate_all_assets_def sample_guard process_asset_def
      attempt_def try_body_def generate_image_def Let_def raise_for_status_def
      failures_def sample_fields w_init_def)

text \<open>
  Claim C6: in a run that gets past the guard, the negative prompts of the requests sent are,
  in order and for each asset that has a prompt, the asset's \<open>negative\<close> when it is present
  and not empty, and the global negative prompt otherwise.
\<close>

theorem negative_prompt_resolution:
  assumes "mkdir e = None" and "fst (ensure_model e w) = None"
  shows "map pl_negative_prompt (transmitted e assets w) =
           map (\<lambda>cfg. case negative cfg of
                        None \<Rightarrow> sd_negative_prompt SD_CONFIG
                      | Some n \<Rightarrow> if n \<noteq> [] then n else sd_negative_prompt SD_CONFIG)
               (filter (\<lambda>cfg. prompt cfg \<noteq> None) (map snd assets))"
  using assms
  by (simp add: transmitted_eq map_filter_as_map request_of_def make_payload_def dict_get_def
      split: option.splits cong: map_cong)

theorem negative_prompt_resolution_witness:
  "mkdir sample_env = None \<and> fst (ensure_model sample_env w_init) = None \<and>
   map pl_negative_prompt (transmitted sample_env negative_assets w_init) =
     [sd_negative_prompt SD_CONFIG, sd_negative_prompt SD_CONFIG, ''text, watermark'']"
  using negative_prompt_resolution [of sample_env w_init negative_assets]
  by (simp add: sample_started negative_assets_def asset_def)

text \<open>
  Claim C10: no request that a run sends has an empty negative prompt.
\<close>

theorem negative_prompt_never_empty:
  "\<forall>pl \<in> set (transmitted e assets w). pl_negative_prompt pl \<noteq> []"
  by (auto simp: transmitted_eq List.map_filter_def dest: request_of_negative split: if_splits)

theorem negative_prompt_never_empty_witness:
  "make_payload ''y'' [] 512 512 \<in> set (transmitted sample_env negative_assets w_init) \<and>
   pl_negative_prompt (make_payload ''y'' [] 512 512) \<noteq> []"
proof -
  have "make_payload ''y'' [] 512 512 \<in> set (transmitted sample_env negative_assets w_init)"
    by (simp add: transmitted_eq sample_started List.map_filter_def request_of_def asset_def
        negative_assets_def dict_get_def SD_CONFIG_def make_payload_def)
  with negative_prompt_never_empty [of sample_env negative_assets w_init] show ?thesis
    by blast
qed

subsection \<open>Backend state guard\<close>

text \<open>
  Claim C3: the guard always queries the active model, and it sends the switch request
  exactly when the query answered and the identifier it found (the empty string when the
  body names none) does not contain the required identifier as a substring. When the
  identifier contains it, or when the query failed, nothing else is sent.
\<close>

theorem switch_request_iff_not_substring:
  "trace (snd (ensure_model e w)) =
     trace w @ GetOptions #
       (case get_options e (trace w) of
          Inl x \<Rightarrow> []
        | Inr response \<Rightarrow>
            (case o_json response of
               Inl x \<Rightarrow> []
             | Inr member \<Rightarrow>
                 if (\<exists>pre suf. dict_get member [] = pre @ target_model @ suf) then []
                 else [PostOptions target_model]))"
  by (simp add: ensure_model_def Let_def str_contains_sublist sublist_def
      split: sum.splits option.splits)

theorem switch_request_iff_not_substring_witness:
  "trace (snd (ensure_model sample_env w_init)) = [GetOptions] \<and>
   trace (snd (ensure_model refusing_env w_init)) = [GetOptions, PostOptions target_model]"
  using switch_request_iff_not_substring [of sample_env w_init]
    switch_request_iff_not_substring [of refusing_env w_init]
  by (simp add: sample_guard refusing_guard w_init_def)

text \<open>
  Claim C4, as the code has it: when the guard raises (a transport error of the query or of
  the switch request, or a body of the query that cannot be decoded), the run ends at once
  with that exception: no asset is started, no generation request is made and no file is
  written.
\<close>

theorem guard_failure_aborts_run:
  assumes "mkdir e = None" and "ensure_model e w = (Some x, w')"
  shows "generate_all_assets e assets w = (Some x, w') \<and> transmitted e assets w = [] \<and>
         requests_sent w' = requests_sent w \<and> attempted w' = attempted w \<and> files w' = files w"
  using assms ensure_model_requests [of e w] ensure_model_attempted [of e w]
    ensure_model_files [of e w]
  by (simp add: generate_all_assets_def transmitted_eq)

theorem guard_failure_aborts_run_witness:
  "mkdir unreachable_env = None \<and>
   ensure_model unreachable_env w_init =
     (Some ConnectionError, call GetOptions (print CheckingModel w_init)) \<and>
   fst (generate_all_assets unreachable_env negative_assets w_init) = Some ConnectionError \<and>
   transmitted unreachable_env negative_assets w_init = [] \<and>
   attempted (snd (generate_all_assets unreachable_env negative_assets w_init)) = []"
  using guard_failure_aborts_run [of unreachable_env w_init ConnectionError
      "call GetOptions (print CheckingModel w_init)" negative_assets]
  by (simp add: unreachable_guard unreachable_fields) (simp add: attempted_def w_init_def List.map_filter_def)

text \<open>
  Claim C4 as stated fails where the switch request is answered with an HTTP error status:
  the guard does not look at the status, and the run goes on to request and write the asset.
\<close>

theorem unchecked_switch_status_counterexample:
  "o_status (projr (post_options refusing_env [GetOptions] target_model)) = 500 \<and>
   fst (generate_all_assets refusing_env [(''a.png'', asset ''x'')] w_init) = None \<and>
   map pl_prompt (transmitted refusing_env [(''a.png'', asset ''x'')] w_init) = [''x''] \<and>
   attempted (snd (generate_all_assets refusing_env [(''a.png'', asset ''x'')] w_init)) = [''a.png''] \<and>
   files (snd (generate_all_assets refusing_env [(''a.png'', asset ''x'')] w_init))
     (output_path ''a.png'') = Some [1, 2]"
  by (simp add: transmitted_eq refusing_guard refusing_fields sample_fields List.map_filter_def
      request_of_def asset_def run_defs attempted_def w_init_def)

subsection \<open>Terminal output\<close>

text \<open>
  Claim C8, as the code has it: the whole output of a run that gets past the guard is the
  guard's lines; then for each asset in turn its progress line, the lines of the background
  removal where the iteration got that far, and one closing line, which is the error line if
  the \<open>try\<close> statement raised and the line \<open>Saved\<close> otherwise; then one fixed line that names
  the output directory. Nothing else is printed: no counts, and no failure is reported
  anywhere but in the closing line of its own asset.
\<close>

theorem run_output_has_no_summary:
  assumes "mkdir e = None" and "ensure_model e w0 = (None, w)"
  shows "stdout (snd (generate_all_assets e assets w0)) =
           stdout (before_asset e assets (length assets) w) @ [Complete OUTPUT_DIR]
       \<and> (\<forall>k < length assets.
            stdout (before_asset e assets (Suc k) w) =
              stdout (before_asset e assets k w) @
              Generating (Suc k) (length assets) (fst (assets ! k)) #
              (case prompt (snd (assets ! k)) of
                 None \<Rightarrow> []
               | Some p \<Rightarrow>
                   (case fst (generation e (snd (assets ! k)) p (start_of e assets k w)) of
                      Inl x \<Rightarrow> []
                    | Inr d \<Rightarrow>
                        if dict_get (remove_bg (snd (assets ! k))) False
                        then RemovingBackground # (if REMBG_AVAILABLE e then [] else [RembgWarning])
                        else [])) @
              [case fst (attempt e (fst (assets ! k)) (snd (assets ! k)) (start_of e assets k w)) of
                 Inl x \<Rightarrow> ERROR x
               | Inr u \<Rightarrow> Saved (output_path (fst (assets ! k)))])
       \<and> stdout (before_asset e assets 0 w) = stdout w
       \<and> (stdout w = stdout w0 @ [CheckingModel, AlreadyUsing target_model] \<or>
          stdout w = stdout w0 @ [CheckingModel, Switching target_model, ModelSwitched])"
proof (intro conjI allI impI)
  show "stdout (snd (generate_all_assets e assets w0)) =
      stdout (before_asset e assets (length assets) w) @ [Complete OUTPUT_DIR]"
    by (simp add: run_past_guard [OF assms] before_asset_def)
next
  fix k
  assume "k < length assets"
  then show "stdout (before_asset e assets (Suc k) w) =
      stdout (before_asset e assets k w) @
      Generating (Suc k) (length assets) (fst (assets ! k)) #
      (case prompt (snd (assets ! k)) of
         None \<Rightarrow> []
       | Some p \<Rightarrow>
           (case fst (generation e (snd (assets ! k)) p (start_of e assets k w)) of
              Inl x \<Rightarrow> []
            | Inr d \<Rightarrow>
                if dict_get (remove_bg (snd (assets ! k))) False
                then RemovingBackground # (if REMBG_AVAILABLE e then [] else [RembgWarning])
                else [])) @
      [case fst (attempt e (fst (assets ! k)) (snd (assets ! k)) (start_of e assets k w)) of
         Inl x \<Rightarrow> ERROR x
       | Inr u \<Rightarrow> Saved (output_path (fst (assets ! k)))]"
    by (rule iteration_output)
next
  show "stdout (before_asset e assets 0 w) = stdout w"
    by (simp add: before_asset_def)
next
  show "stdout w = stdout w0 @ [CheckingModel, AlreadyUsing target_model] \<or>
      stdout w = stdout w0 @ [CheckingModel, Switching target_model, ModelSwitched]"
    by (rule guard_output [OF assms(2)])
qed

theorem run_output_has_no_summary_witness:
  "mkdir sample_env = None \<and>
   fst (ensure_model sample_env w_init) = None \<and>
   stdout (snd (generate_all_assets sample_env failing_assets w_init)) =
     stdout (before_asset sample_env failing_assets 3 (snd (ensure_model sample_env w_init))) @
       [Complete OUTPUT_DIR] \<and>
   stdout (before_asset sample_env failing_assets (Suc (Suc 0)) (snd (ensure_model sample_env w_init))) =
     stdout (before_asset sample_env failing_assets (Suc 0) (snd (ensure_model sample_env w_init))) @
       [Generating (Suc (Suc 0)) 3 ''b.png'', ERROR ConnectionError] \<and>
   stdout (snd (ensure_model sample_env w_init)) = [CheckingModel, AlreadyUsing target_model]"
proof -
  define wg where "wg = snd (ensure_model sample_env w_init)"
  define cfg where "cfg = (asset ''down'')\<lparr>remove_bg := Some True\<rparr>"
  have g: "ensure_model sample_env w_init = (None, wg)"
    by (simp add: wg_def sample_guard)
  have k: "Suc 0 < length failing_assets" by (simp add: failing_assets_facts)
  have n: "failing_assets ! Suc 0 = (''b.png'', cfg)" by (simp add: failing_assets_facts cfg_def)
  have p: "prompt cfg = Some ''down''" by (simp add: cfg_def asset_def)
  have a: "fst (attempt sample_env ''b.png'' cfg (start_of sample_env failing_assets (Suc 0) wg)) =
      Inl ConnectionError"
    using attempt_generation_failed [OF p, of sample_env
        "start_of sample_env failing_assets (Suc 0) wg" ConnectionError _ "''b.png''"]
    by (simp add: sample_generation)
  note t = run_output_has_no_summary [OF sample_started(1) g, of failing_assets]
  from t have r1: "stdout (snd (generate_all_assets sample_env failing_assets w_init)) =
      stdout (before_asset sample_env failing_assets 3 wg) @ [Complete OUTPUT_DIR]"
    by (simp add: failing_assets_facts)
  from t k have "stdout (before_asset sample_env failing_assets (Suc (Suc 0)) wg) =
      stdout (before_asset sample_env failing_assets (Suc 0) wg) @
      Generating (Suc (Suc 0)) (length failing_assets) (fst (failing_assets ! Suc 0)) #
      (case prompt (snd (failing_assets ! Suc 0)) of
         None \<Rightarrow> []
       | Some p \<Rightarrow>
           (case fst (generation sample_env (snd (failing_assets ! Suc 0)) p
                        (start_of sample_env failing_assets (Suc 0) wg)) of
              Inl x \<Rightarrow> []
            | Inr d \<Rightarrow>
                if dict_get (remove_bg (snd (failing_assets ! Suc 0))) False
                then RemovingBackground # (if REMBG_AVAILABLE sample_env then [] else [RembgWarning])
                else [])) @
      [case fst (attempt sample_env (fst (failing_assets ! Suc 0)) (snd (failing_assets ! Suc 0))
                   (start_of sample_env failing_assets (Suc 0) wg)) of
         Inl x \<Rightarrow> ERROR x
       | Inr u \<Rightarrow> Saved (output_path (fst (failing_assets ! Suc 0)))]"
    by blast
  then have r2: "stdout (before_asset sample_env failing_assets (Suc (Suc 0)) wg) =
      stdout (before_asset sample_env failing_assets (Suc 0) wg) @
        [Generating (Suc (Suc 0)) 3 ''b.png'', ERROR ConnectionError]"
    by (simp add: n p a sample_generation failing_assets_facts(1))
  have r3: "stdout wg = [CheckingModel, AlreadyUsing target_model]"
    by (simp add: wg_def sample_guard w_init_def)
  from r1 r2 r3 sample_started(1) sample_started(2) [of w_init] show ?thesis
    by (simp add: wg_def)
qed

text \<open>
  Claim C8 as stated fails: this is the whole output of a run of three assets of which the
  second fails. After the closing line of the last asset comes the fixed line and nothing
  else; the output holds no count and no list of the failed assets.
\<close>

theorem no_summary_counterexample:
  "stdout (snd (generate_all_assets sample_env failing_assets w_init)) =
     [CheckingModel, AlreadyUsing target_model,
      Generating 1 3 ''a.png'', Saved (output_path ''a.png''),
      Generating 2 3 ''b.png'', ERROR ConnectionError,
      Generating 3 3 ''c.png'', RemovingBackground, RembgWarning, Saved (output_path ''c.png''),
      Complete OUTPUT_DIR]"
  by (simp add: run_defs sample_guard sample_fields failing_assets_def asset_def w_init_def)

subsection \<open>Failure isolation\<close>

text \<open>
  Claim C2: in a run that gets past the guard, when the \<open>try\<close> statement of the asset at
  position \<open>k\<close> raises \<open>x\<close> (from generation, post-processing or writing the file), the
  run still returns normally; the iteration ends by printing the error line for \<open>x\<close> and
  everything printed up to there stays in the output; every asset of the registry is started,
  in registration order; and a generation request is made for every asset that has a prompt.
\<close>

theorem asset_failure_is_isolated:
  assumes "mkdir e = None" and "ensure_model e w0 = (None, w)"
    and "k < length assets" and "assets ! k = (filename, cfg)"
    and "attempt e filename cfg (start_of e assets k w) = (Inl x, w')"
  shows "fst (generate_all_assets e assets w0) = None
       \<and> after_asset e assets k w = print (ERROR x) w'
       \<and> prefix (stdout (after_asset e assets k w))
            (stdout (snd (generate_all_assets e assets w0)))
       \<and> attempted (snd (generate_all_assets e assets w0)) = attempted w0 @ map fst assets
       \<and> transmitted e assets w0 = List.map_filter request_of (map snd assets)"
proof -
  have "attempted w = attempted w0"
    using ensure_model_attempted [of e w0] assms(2) by simp
  then have "attempted (snd (generate_all_assets e assets w0)) = attempted w0 @ map fst assets"
    by (simp add: run_past_guard [OF assms(1,2)] asset_loop_attempted)
  moreover have "transmitted e assets w0 = List.map_filter request_of (map snd assets)"
    using assms(1,2) by (simp add: transmitted_eq)
  ultimately show ?thesis
    using after_asset_raised [OF assms(3,4,5)] stdout_at_end [OF assms(1,2,3)]
    by (simp add: run_past_guard [OF assms(1,2)])
qed

theorem asset_failure_is_isolated_witness:
  "fst (attempt sample_env ''b.png'' (snd (failing_assets ! Suc 0))
         (start_of sample_env failing_assets (Suc 0) (snd (ensure_model sample_env w_init)))) =
     Inl ConnectionError \<and>
   fst (generate_all_assets sample_env failing_assets w_init) = None \<and>
   attempted (snd (generate_all_assets sample_env failing_assets w_init)) =
     [''a.png'', ''b.png'', ''c.png''] \<and>
   map pl_prompt (transmitted sample_env failing_assets w_init) = [''x'', ''down'', ''z'']"
proof -
  define wg where "wg = snd (ensure_model sample_env w_init)"
  define cfg where "cfg = (asset ''down'')\<lparr>remove_bg := Some True\<rparr>"
  define w' where "w' = snd (attempt sample_env ''b.png'' cfg (start_of sample_env failing_assets (Suc 0) wg))"
  have g: "ensure_model sample_env w_init = (None, wg)"
    by (simp add: wg_def sample_guard)
  have p: "prompt cfg = Some ''down''"
    by (simp add: cfg_def asset_def)
  have a: "attempt sample_env ''b.png'' cfg (start_of sample_env failing_assets (Suc 0) wg) =
      (Inl ConnectionError, w')"
    using attempt_generation_failed [OF p, of sample_env
        "start_of sample_env failing_assets (Suc 0) wg" ConnectionError _ "''b.png''"]
    by (simp add: w'_def sample_generation)
  have k: "Suc 0 < length failing_assets" by (simp add: failing_assets_facts)
  have n: "failing_assets ! Suc 0 = (''b.png'', cfg)" by (simp add: failing_assets_facts cfg_def)
  note t = asset_failure_is_isolated [OF sample_started(1) g k n a]
  from t have r1: "fst (generate_all_assets sample_env failing_assets w_init) = None"
    by simp
  from t have "attempted (snd (generate_all_assets sample_env failing_assets w_init)) =
      attempted w_init @ map fst failing_assets"
    by simp
  then have r2: "attempted (snd (generate_all_assets sample_env failing_assets w_init)) =
      [''a.png'', ''b.png'', ''c.png'']"
    by (simp add: attempted_def w_init_def List.map_filter_def failing_assets_def)
  from t have tr: "transmitted sample_env failing_assets w_init =
      List.map_filter request_of (map snd failing_assets)"
    by simp
  have "List.map_filter prompt (map snd failing_assets) = [''x'', ''down'', ''z'']"
    by (simp add: failing_assets_def asset_def List.map_filter_def)
  then have r3: "map pl_prompt (transmitted sample_env failing_assets w_init) =
      [''x'', ''down'', ''z'']"
    by (simp only: tr map_prompt_requests)
  have r0: "fst (attempt sample_env ''b.png'' (snd (failing_assets ! Suc 0))
         (start_of sample_env failing_assets (Suc 0) (snd (ensure_model sample_env w_init)))) =
     Inl ConnectionError"
    using a n by (simp add: wg_def)
  from r0 r1 r2 r3 show ?thesis by blast
qed

subsection \<open>Post-processing and persistence\<close>

text \<open>
  Claim C7: where rembg is not available, \<open>apply_background_removal\<close> returns its input for
  every input; and an asset flagged \<open>remove_bg\<close> whose generation returned the bytes \<open>d\<close> and
  whose file can be opened and written has the content \<open>d\<close> in its file when its iteration
  ends, the iteration printing the warning and the line \<open>Saved\<close> and no error line. (The
  statement is about the end of the asset's own iteration: a later asset whose name joins to
  the same path opens the same file again.)
\<close>

theorem missing_rembg_degrades:
  assumes "\<not> REMBG_AVAILABLE e"
  shows "fst (apply_background_removal e image_data w') = Inr image_data \<and>
     (k < length assets \<and> assets ! k = (filename, cfg) \<and>
      remove_bg cfg = Some True \<and> prompt cfg = Some p \<and>
      generation e cfg p (start_of e assets k w) = (Inr d, w1) \<and>
      file_open e (output_path filename) = None \<and>
      file_write e (output_path filename) d = None \<longrightarrow>
        files (after_asset e assets k w) (output_path filename) = Some d \<and>
        stdout (after_asset e assets k w) =
          stdout (start_of e assets k w) @
            [RemovingBackground, RembgWarning, Saved (output_path filename)] \<and>
        failures (after_asset e assets k w) = failures (before_asset e assets k w))"
proof (intro conjI impI)
  show "fst (apply_background_removal e image_data w') = Inr image_data"
    using assms by (simp add: apply_background_removal_def)
next
  assume h: "k < length assets \<and> assets ! k = (filename, cfg) \<and>
      remove_bg cfg = Some True \<and> prompt cfg = Some p \<and>
      generation e cfg p (start_of e assets k w) = (Inr d, w1) \<and>
      file_open e (output_path filename) = None \<and>
      file_write e (output_path filename) d = None"
  note d = asset_degraded [of k assets filename cfg p e w d w1]
  show "files (after_asset e assets k w) (output_path filename) = Some d"
    using h assms by (intro d(1)) simp_all
  show "stdout (after_asset e assets k w) =
          stdout (start_of e assets k w) @
            [RemovingBackground, RembgWarning, Saved (output_path filename)]"
    using h assms by (intro d(2)) simp_all
  show "failures (after_asset e assets k w) = failures (before_asset e assets k w)"
    using h assms by (intro d(3)) simp_all
qed

theorem missing_rembg_degrades_witness:
  "\<not> REMBG_AVAILABLE sample_env \<and>
   fst (apply_background_removal sample_env [7, 8] w_init) = Inr [7, 8] \<and>
   remove_bg (snd (failing_assets ! 2)) = Some True \<and>
   files (after_asset sample_env failing_assets 2 (snd (ensure_model sample_env w_init)))
     (output_path ''c.png'') = Some [1, 2]"
proof -
  define wg where "wg = snd (ensure_model sample_env w_init)"
  define cfg where "cfg = (asset ''z'')\<lparr>remove_bg := Some True\<rparr>"
  define w1 where "w1 = snd (generation sample_env cfg ''z'' (start_of sample_env failing_assets 2 wg))"
  have avail: "\<not> REMBG_AVAILABLE sample_env" by (simp add: sample_fields)
  have k: "2 < length failing_assets" by (simp add: failing_assets_facts)
  have n: "failing_assets ! 2 = (''c.png'', cfg)" by (simp add: failing_assets_facts cfg_def)
  have r: "remove_bg cfg = Some True" and p: "prompt cfg = Some ''z''"
    by (simp_all add: cfg_def asset_def)
  have gen: "generation sample_env cfg ''z'' (start_of sample_env failing_assets 2 wg) =
      (Inr [1, 2], w1)"
    by (simp add: w1_def sample_generation)
  note t = missing_rembg_degrades [OF avail, where image_data = "[7, 8]" and w' = w_init
      and w = wg and k = 2 and assets = failing_assets
      and filename = "''c.png''" and cfg = cfg and p = "''z''" and d = "[1, 2]" and ?w1.0 = w1]
  have r1: "fst (apply_background_removal sample_env [7, 8] w_init) = Inr [7, 8]"
    using t by blast
  have r2: "files (after_asset sample_env failing_assets 2 wg) (output_path ''c.png'') = Some [1, 2]"
    using t sample_fields(5,6) k n r p gen by blast
  have r3: "remove_bg (snd (failing_assets ! 2)) = Some True"
    using n r by simp
  from avail r1 r2 r3 show ?thesis by (simp add: wg_def)
qed

text \<open>
  Claim C9: for an asset with a prompt, when its generation call raises, its iteration leaves
  every file as it was; when generation returns \<open>d\<close>, the asset is flagged \<open>remove_bg\<close>,
  rembg is not available and the file can be opened and written, its file holds \<open>d\<close> when
  the iteration ends; and when rembg is available and raises, again the iteration leaves
  every file as it was.
\<close>

theorem write_only_after_generation:
  assumes "k < length assets" and "assets ! k = (filename, cfg)" and "prompt cfg = Some p"
  shows "(\<forall>x w1. generation e cfg p (start_of e assets k w) = (Inl x, w1) \<longrightarrow>
            files (after_asset e assets k w) = files (before_asset e assets k w)) \<and>
         (\<forall>d w1. generation e cfg p (start_of e assets k w) = (Inr d, w1) \<and>
            remove_bg cfg = Some True \<and> \<not> REMBG_AVAILABLE e \<and>
            file_open e (output_path filename) = None \<and>
            file_write e (output_path filename) d = None \<longrightarrow>
            files (after_asset e assets k w) (output_path filename) = Some d) \<and>
         (\<forall>d w1 x. generation e cfg p (start_of e assets k w) = (Inr d, w1) \<and>
            remove_bg cfg = Some True \<and> REMBG_AVAILABLE e \<and> rembg e d = Inl x \<longrightarrow>
            files (after_asset e assets k w) = files (before_asset e assets k w))"
proof (intro conjI allI impI)
  fix x w1
  assume g: "generation e cfg p (start_of e assets k w) = (Inl x, w1)"
  have a: "attempt e filename cfg (start_of e assets k w) = (Inl x, w1)"
    by (rule attempt_generation_failed [OF assms(3) g])
  have f: "files w1 = files (start_of e assets k w)"
    by (rule generation_world(1) [OF g])
  show "files (after_asset e assets k w) = files (before_asset e assets k w)"
    by (rule asset_not_written [OF assms(1,2) a f])
next
  fix d w1
  assume h: "generation e cfg p (start_of e assets k w) = (Inr d, w1) \<and>
      remove_bg cfg = Some True \<and> \<not> REMBG_AVAILABLE e \<and>
      file_open e (output_path filename) = None \<and>
      file_write e (output_path filename) d = None"
  show "files (after_asset e assets k w) (output_path filename) = Some d"
    using h by (intro asset_degraded(1) [OF assms(1,2,3), of e w d w1]) simp_all
next
  fix d w1 x
  assume h: "generation e cfg p (start_of e assets k w) = (Inr d, w1) \<and>
      remove_bg cfg = Some True \<and> REMBG_AVAILABLE e \<and> rembg e d = Inl x"
  obtain w2 where w2: "attempt e filename cfg (start_of e assets k w) = (Inl x, w2)"
      "files w2 = files (start_of e assets k w)"
    using attempt_rembg_failed [OF assms(3), of e "start_of e assets k w" d w1 x filename] h
    by blast
  show "files (after_asset e assets k w) = files (before_asset e assets k w)"
    by (rule asset_not_written [OF assms(1,2) w2])
qed

theorem write_only_after_generation_witness:
  "files (after_asset sample_env failing_assets (Suc 0) (snd (ensure_model sample_env w_init))) =
     [output_path ''a.png'' \<mapsto> [1, 2]] \<and>
   files (after_asset sample_env failing_assets 2 (snd (ensure_model sample_env w_init)))
     (output_path ''c.png'') = Some [1, 2] \<and>
   files (after_asset rembg_env failing_assets 2 (snd (ensure_model rembg_env w_init))) =
     [output_path ''a.png'' \<mapsto> [1, 2]]"
proof -
  define wg where "wg = snd (ensure_model sample_env w_init)"
  define cb where "cb = (asset ''down'')\<lparr>remove_bg := Some True\<rparr>"
  define cc where "cc = (asset ''z'')\<lparr>remove_bg := Some True\<rparr>"
  have wg': "snd (ensure_model rembg_env w_init) = wg"
    by (simp add: wg_def sample_guard rembg_guard)
  have k1: "Suc 0 < length failing_assets" and k2: "2 < length failing_assets"
    by (simp_all add: failing_assets_facts)
  have n1: "failing_assets ! Suc 0 = (''b.png'', cb)" and n2: "failing_assets ! 2 = (''c.png'', cc)"
    by (simp_all add: failing_assets_facts cb_def cc_def)
  have p1: "prompt cb = Some ''down''" and p2: "prompt cc = Some ''z''"
    and r2: "remove_bg cc = Some True"
    by (simp_all add: cb_def cc_def asset_def)
  have empty: "files wg = Map.empty"
    by (simp add: wg_def sample_guard w_init_def)
  note ta = write_only_after_generation [OF k1 n1 p1, of sample_env wg]
  note tb = write_only_after_generation [OF k2 n2 p2, of sample_env wg]
  note tc = write_only_after_generation [OF k2 n2 p2, of rembg_env wg]
  have ga: "generation sample_env cb ''down'' (start_of sample_env failing_assets (Suc 0) wg) =
      (Inl ConnectionError, snd (generation sample_env cb ''down''
         (start_of sample_env failing_assets (Suc 0) wg)))"
    by (simp add: sample_generation)
  have gb: "generation sample_env cc ''z'' (start_of sample_env failing_assets 2 wg) =
      (Inr [1, 2], snd (generation sample_env cc ''z'' (start_of sample_env failing_assets 2 wg)))"
    by (simp add: sample_generation)
  have gc: "generation rembg_env cc ''z'' (start_of rembg_env failing_assets 2 wg) =
      (Inr [1, 2], snd (generation rembg_env cc ''z'' (start_of rembg_env failing_assets 2 wg)))"
    by (simp add: rembg_generation)
  have "files (after_asset sample_env failing_assets (Suc 0) wg) =
      files (before_asset sample_env failing_assets (Suc 0) wg)"
    using ta ga by blast
  then have a: "files (after_asset sample_env failing_assets (Suc 0) wg) =
      [output_path ''a.png'' \<mapsto> [1, 2]]"
    by (simp add: sample_first_asset empty)
  have b: "files (after_asset sample_env failing_assets 2 wg) (output_path ''c.png'') = Some [1, 2]"
    using tb gb r2 sample_fields(4,5,6) by metis
  have "files (after_asset rembg_env failing_assets 2 wg) =
      files (before_asset rembg_env failing_assets 2 wg)"
    using tc gc r2 rembg_fields(4,5) by metis
  then have c: "files (after_asset rembg_env failing_assets 2 wg) =
      [output_path ''a.png'' \<mapsto> [1, 2]]"
    by (simp add: rembg_two_assets empty)
  from a b c show ?thesis by (simp add: wg_def wg')
qed

end
